theory Spec2Isabelle
  imports
    Complex_Main
    "HOL-Library.Word"
    "HOL-Library.Char_ord"
    "HOL-Library.List_Lexorder"
    "HOL-Library.AList"
    "HOL-Library.Multiset"
begin

unbundle bit_operations_syntax

section \<open>Values of the host language\<close>

text \<open>
  The component is TypeScript running on a JavaScript engine. The fragments of the language
  the component relies on are modelled here: the bytes of an \<^verbatim>\<open>ArrayBuffer\<close>, the
  numbers a \<^verbatim>\<open>Float32Array\<close> view yields, and the loosely typed values found in the
  options object that the host passes in through the URL hash.
\<close>

type_synonym byte = "8 word"

text \<open>
  A JavaScript number read out of a \<^verbatim>\<open>Float32Array\<close>. Every binary32 value is exactly
  representable as a double, so the number is the mathematical value of the binary32
  datum: a rational, one of the two infinities, the negative zero, or NaN (all NaN bit
  patterns read as the one NaN value).
\<close>

datatype number = NaN | PosInfinity | NegInfinity | NegZero | Finite rat

text \<open>
  IEEE 754 binary32: bit 31 is the sign, bits 30..23 the biased exponent \<open>e\<close>, bits 22..0
  the fraction \<open>f\<close>. For \<open>e = 255\<close> the datum is an infinity (\<open>f = 0\<close>) or NaN; for
  \<open>e = 0\<close> it is the subnormal \<open>f * 2^(-149)\<close>; otherwise it is
  \<open>(2^23 + f) * 2^(e - 150)\<close>.
\<close>

definition float32_of_bits :: "32 word \<Rightarrow> number" where
  "float32_of_bits w =
     (let s = bit w 31;
          e = unat (drop_bit 23 w AND 255);
          f = unat (w AND 8388607)
      in if e = 255 then (if f \<noteq> 0 then NaN else if s then NegInfinity else PosInfinity)
         else
           let m = (if e = 0 then f else 8388608 + f);
               x = (if e = 0 then 1 else e);
               mag = (of_nat m * 2 ^ x / 2 ^ 150 :: rat)
           in if m = 0 \<and> s then NegZero else Finite (if s then - mag else mag))"

text \<open>
  Element access of a \<^verbatim>\<open>Float32Array\<close> reads four consecutive bytes in the byte order
  of the platform. The platforms that offer Web Bluetooth are little-endian, and the
  specification fixes that order: the byte at the lowest address is the least
  significant.
\<close>

definition word32_of_le_bytes :: "byte \<Rightarrow> byte \<Rightarrow> byte \<Rightarrow> byte \<Rightarrow> 32 word" where
  "word32_of_le_bytes b0 b1 b2 b3 =
     ucast b0 OR push_bit 8 (ucast b1) OR push_bit 16 (ucast b2) OR push_bit 24 (ucast b3)"

definition getFloat32LE :: "byte \<Rightarrow> byte \<Rightarrow> byte \<Rightarrow> byte \<Rightarrow> number" where
  "getFloat32LE b0 b1 b2 b3 = float32_of_bits (word32_of_le_bytes b0 b1 b2 b3)"

fun float32_elements :: "byte list \<Rightarrow> number list" where
  "float32_elements (b0 # b1 # b2 # b3 # rest) = getFloat32LE b0 b1 b2 b3 # float32_elements rest"
| "float32_elements _ = []"

text \<open>
  \<^verbatim>\<open>Array.from(new Float32Array(buffer))\<close>. The constructor throws a RangeError when the
  byte length of the buffer is not a multiple of 4; otherwise the view has
  \<open>byteLength / 4\<close> elements, element \<open>i\<close> read from bytes \<open>4 i .. 4 i + 3\<close>.
\<close>

definition newFloat32Array :: "byte list \<Rightarrow> string + number list" where
  "newFloat32Array buffer =
     (if length buffer mod 4 \<noteq> 0
      then Inl ''RangeError: byte length of Float32Array should be a multiple of 4''
      else Inr (float32_elements buffer))"

text \<open>The base64 alphabet of RFC 4648, and the character for a 6-bit group.\<close>

definition base64Alphabet :: string where
  "base64Alphabet = ''ABCDEFGHIJKLMNOPQRSTUVWXYZabcdefghijklmnopqrstuvwxyz0123456789+/''"

definition base64Char :: "byte \<Rightarrow> char" where
  "base64Char v = base64Alphabet ! unat (v AND 63)"

text \<open>
  \<^verbatim>\<open>btoa\<close> on a binary string, given as its bytes: base64 with padding.
\<close>

fun btoa :: "byte list \<Rightarrow> string" where
  "btoa (a # b # c # rest) =
     base64Char (drop_bit 2 a)
     # base64Char (push_bit 4 (a AND 3) OR drop_bit 4 b)
     # base64Char (push_bit 2 (b AND 15) OR drop_bit 6 c)
     # base64Char (c AND 63)
     # btoa rest"
| "btoa [a, b] =
     [base64Char (drop_bit 2 a),
      base64Char (push_bit 4 (a AND 3) OR drop_bit 4 b),
      base64Char (push_bit 2 (b AND 15)),
      CHR ''='']"
| "btoa [a] =
     [base64Char (drop_bit 2 a), base64Char (push_bit 4 (a AND 3)), CHR ''='', CHR ''='']"
| "btoa [] = []"

text \<open>
  What a caller can hand to a function that expects a buffer: a \<^verbatim>\<open>Uint8Array\<close> view, or the
  \<^verbatim>\<open>ArrayBuffer\<close> itself, each with the bytes it holds. Read as an array-like (the property
  \<^verbatim>\<open>length\<close> and the elements at the indices below it), a \<^verbatim>\<open>Uint8Array\<close> presents its bytes;
  an \<^verbatim>\<open>ArrayBuffer\<close> has \<^verbatim>\<open>byteLength\<close> but neither \<^verbatim>\<open>length\<close> nor indexed elements, so it
  presents no element at all.
\<close>

datatype BufferArgument = Uint8ArrayOf "byte list" | ArrayBufferOf "byte list"

definition arrayLikeElements :: "BufferArgument \<Rightarrow> byte list" where
  "arrayLikeElements arg = (case arg of Uint8ArrayOf bytes \<Rightarrow> bytes | ArrayBufferOf bytes \<Rightarrow> [])"

text \<open>
  Modelled from the spec: \<^verbatim>\<open>Unibabel.bufferToBase64\<close> belongs to the third-party package
  \<^verbatim>\<open>unibabel\<close>, which is not part of the sources. The specification describes the branch
  as "base64-encode the raw bytes and return the resulting string". The function turns
  the elements of the array-like it is given into a binary string and applies \<^verbatim>\<open>btoa\<close>.
\<close>

definition bufferToBase64 :: "BufferArgument \<Rightarrow> string" where
  "bufferToBase64 arg = btoa (arrayLikeElements arg)"

section \<open>The payload decoder\<close>

text \<open>
  \<^verbatim>\<open>type OutputType = boolean | number[] | undefined | string\<close>
\<close>

datatype OutputType = OBoolean bool | ONumbers "number list" | OUndefined | OString string

text \<open>
  The decoding part of the listener (the \<^verbatim>\<open>if (possibleArrayBuffer)\<close> block). The argument is
  \<^verbatim>\<open>c.value?.buffer\<close>: \<open>None\<close> when the characteristic has no value, otherwise the bytes of
  the buffer. An \<^verbatim>\<open>ArrayBuffer\<close> is an object and therefore truthy even when it is empty, so
  the outer test only separates \<open>None\<close> from \<open>Some\<close>. The first branch reads the buffer
  through a \<^verbatim>\<open>Uint8Array\<close> view, the second through a \<^verbatim>\<open>Float32Array\<close> view; the third
  passes the buffer itself to \<^verbatim>\<open>Unibabel.bufferToBase64\<close>. A thrown exception is the left
  summand.
\<close>

definition decodeValue :: "byte list option \<Rightarrow> string + OutputType" where
  "decodeValue possibleArrayBuffer =
     (case possibleArrayBuffer of
        None \<Rightarrow> Inr OUndefined
      | Some buffer \<Rightarrow>
          if length buffer = 1 then Inr (OBoolean (buffer ! 0 = 1))
          else if length buffer mod 4 = 0 then
            (case newFloat32Array buffer of
               Inl err \<Rightarrow> Inl err
             | Inr floats \<Rightarrow> Inr (ONumbers floats))
          else Inr (OString (bufferToBase64 (ArrayBufferOf buffer))))"

section \<open>The options object\<close>

text \<open>
  \<^verbatim>\<open>useHashParamJson<OptionBlob>("options")\<close> yields \<^verbatim>\<open>undefined\<close> or an object parsed from
  JSON. The options menu writes strings and booleans into it (\<^verbatim>\<open>type: "string"\<close>,
  \<^verbatim>\<open>type: "boolean"\<close>), so a property value is a string, a boolean, or \<^verbatim>\<open>undefined\<close> when
  the property is missing. An object is an association list with distinct keys, in
  property order.
\<close>

datatype jsval = JUndefined | JBoolean bool | JString string

type_synonym jsobject = "(string \<times> jsval) list"

definition truthy :: "jsval \<Rightarrow> bool" where
  "truthy v = (case v of JUndefined \<Rightarrow> False | JBoolean b \<Rightarrow> b | JString s \<Rightarrow> s \<noteq> [])"

text \<open>String conversion, as in a template literal or a computed property name.\<close>

definition toString :: "jsval \<Rightarrow> string" where
  "toString v =
     (case v of
        JUndefined \<Rightarrow> ''undefined''
      | JBoolean b \<Rightarrow> (if b then ''true'' else ''false'')
      | JString s \<Rightarrow> s)"

text \<open>
  \<^verbatim>\<open>obj[key]\<close>, \<^verbatim>\<open>Object.keys(obj)\<close> and \<^verbatim>\<open>Object.fromEntries(entries)\<close>. Property access
  looks at the own properties of the object. What an object inherits from its prototype
  (\<^verbatim>\<open>constructor\<close>, \<^verbatim>\<open>toString\<close>, ...) is left out: the keys looked up are characteristic
  identifiers and option names, none of which is such a name.
\<close>

definition getProp :: "jsobject \<Rightarrow> string \<Rightarrow> jsval" where
  "getProp obj key = (case map_of obj key of None \<Rightarrow> JUndefined | Some v \<Rightarrow> v)"

definition objectKeys :: "jsobject \<Rightarrow> string list" where
  "objectKeys obj = map fst obj"

definition objectFromEntries :: "(string \<times> jsval) list \<Rightarrow> jsobject" where
  "objectFromEntries entries = foldl (\<lambda>obj (k, v). AList.update k v obj) [] entries"

text \<open>
  \<^verbatim>\<open>const serviceUUID = optionsInHashParams && optionsInHashParams.serviceUUID\<close> and
  \<^verbatim>\<open>const displayoutputs = optionsInHashParams && optionsInHashParams.displayoutputs\<close>
\<close>

definition serviceUUIDOf :: "jsobject option \<Rightarrow> jsval" where
  "serviceUUIDOf opts = (case opts of None \<Rightarrow> JUndefined | Some obj \<Rightarrow> getProp obj ''serviceUUID'')"

definition displayoutputsOf :: "jsobject option \<Rightarrow> jsval" where
  "displayoutputsOf opts =
     (case opts of None \<Rightarrow> JUndefined | Some obj \<Rightarrow> getProp obj ''displayoutputs'')"

text \<open>
  The value the first effect passes to \<^verbatim>\<open>setKeyAliases\<close>: the keys of the options object,
  without those that are strictly equal to the value of \<^verbatim>\<open>serviceUUID\<close>, each paired with
  its value.
\<close>

definition newKeyAliases :: "jsobject option \<Rightarrow> jsobject option" where
  "newKeyAliases opts =
     (case opts of
        None \<Rightarrow> None
      | Some obj \<Rightarrow>
          Some (objectFromEntries
                  (map (\<lambda>key. (key, getProp obj key))
                     (filter (\<lambda>k. JString k \<noteq> serviceUUIDOf opts) (objectKeys obj)))))"

section \<open>The state of the component\<close>

datatype State =
    Begin
  | Scanning
  | Connecting
  | ChoosingService
  | GettingService
  | GettingCharacteristics
  | FinishedSuccess
  | FinishedError

datatype Severity = Info | Error | Warning | Success

record InfoBlob =
  title :: "string option"
  message :: "string option"
  status :: "Severity option"

definition infoBlob :: "Severity \<Rightarrow> string \<Rightarrow> InfoBlob" where
  "infoBlob s m = \<lparr>title = None, message = Some m, status = Some s\<rparr>"

text \<open>
  Handles of the platform. A characteristic is known by its identifier; a second field
  tells two instances with the same identifier apart. Servers and services are opaque.
\<close>

record Characteristic =
  uuid :: string
  instance_no :: nat

type_synonym Server = nat
type_synonym Service = nat

record Device =
  deviceName :: string
  gatt :: "Server option"

type_synonym Outputs = "(string \<times> OutputType) list"

text \<open>The hook state of \<^verbatim>\<open>Bluetooth\<close>, one field per \<^verbatim>\<open>useState\<close>, \<^verbatim>\<open>useRef\<close> or hook value.\<close>

record Component =
  optionsInHashParams :: "jsobject option"
  keyAliases :: "jsobject option"
  bluetoothState :: State
  characteristics :: "Characteristic list"
  server :: "Server option"
  service :: "Service option"
  info :: "InfoBlob list"
  outputsRef :: Outputs
  outputs :: Outputs

definition serviceUUID :: "Component \<Rightarrow> jsval" where
  "serviceUUID c = serviceUUIDOf (optionsInHashParams c)"

definition displayoutputs :: "Component \<Rightarrow> jsval" where
  "displayoutputs c = displayoutputsOf (optionsInHashParams c)"

text \<open>
  Calls into the platform Bluetooth interface. An asynchronous function is cut at each
  \<^verbatim>\<open>await\<close>: a segment runs from one suspension point to the next, returns the
  component with the state updates of the segment applied, the platform calls it made, and
  the suspension point it now waits at (\<open>None\<close> when the function has returned).
\<close>

datatype RequestDeviceOptions = Filters "jsval list list" | AcceptAllDevices

datatype PlatformCall =
    RequestDevice RequestDeviceOptions
  | GattConnect Server
  | GetPrimaryService Server jsval
  | GetCharacteristics Service
  | StartNotifications Characteristic

record 'task Outcome =
  after :: Component
  calls :: "PlatformCall list"
  pending :: "'task option"

section \<open>reset and scan\<close>

definition reset :: "Component \<Rightarrow> Component" where
  "reset c =
     c\<lparr>service := None, server := None, characteristics := [], info := [],
       bluetoothState := Begin\<rparr>"

text \<open>
  \<^verbatim>\<open>appendInfo\<close> of \<^verbatim>\<open>scan\<close>: the closure variable \<^verbatim>\<open>infoBlobs\<close> grows by one entry and the
  status log is set to it.
\<close>

definition appendInfo :: "InfoBlob \<Rightarrow> InfoBlob list \<times> Component \<Rightarrow> InfoBlob list \<times> Component" where
  "appendInfo blob = (\<lambda>(infoBlobs, c).
     let infoBlobs' = infoBlobs @ [blob] in (infoBlobs', c\<lparr>info := infoBlobs'\<rparr>))"

text \<open>The \<^verbatim>\<open>catch\<close> block of \<^verbatim>\<open>scan\<close>.\<close>

definition scanCatch :: "string \<Rightarrow> InfoBlob list \<times> Component \<Rightarrow> InfoBlob list \<times> Component" where
  "scanCatch err = (\<lambda>(infoBlobs, c).
     appendInfo (infoBlob Error err) (infoBlobs, c\<lparr>bluetoothState := FinishedError\<rparr>))"

datatype ScanTask = AwaitRequestDevice "InfoBlob list" | AwaitConnect "InfoBlob list"

text \<open>
  \<^verbatim>\<open>scan\<close> up to \<^verbatim>\<open>await navigator.bluetooth.requestDevice(options)\<close>. The first argument
  tells whether \<^verbatim>\<open>navigator.bluetooth\<close> is present.
\<close>

definition scan :: "bool \<Rightarrow> Component \<Rightarrow> ScanTask Outcome" where
  "scan bluetoothAvailable c0 =
     (let c1 = (reset c0)\<lparr>bluetoothState := Scanning\<rparr>;
          st1 = appendInfo (infoBlob Info ''scanning...'') ([], c1)
      in if \<not> bluetoothAvailable then
           let (infoBlobs, c) =
                 appendInfo
                   (infoBlob Error
                      ''Browser does not support bluetooth https://caniuse.com/#feat=web-bluetooth'')
                   (fst st1, (snd st1)\<lparr>bluetoothState := FinishedError\<rparr>)
           in \<lparr>after = c, calls = [], pending = None\<rparr>
         else
           let options =
                 (if truthy (serviceUUID c0) then Filters [[serviceUUID c0]] else AcceptAllDevices);
               (infoBlobs, c) =
                 appendInfo
                   (infoBlob Info
                      (''Requesting Bluetooth Device...serviceUUID='' @ toString (serviceUUID c0)))
                   st1
           in \<lparr>after = c, calls = [RequestDevice options],
               pending = Some (AwaitRequestDevice infoBlobs)\<rparr>)"

text \<open>
  \<^verbatim>\<open>scan\<close> from the settlement of \<^verbatim>\<open>requestDevice\<close> to \<^verbatim>\<open>await device.gatt.connect()\<close>. A
  rejected promise is \<open>Inl\<close> of the error as a string. Reading \<^verbatim>\<open>connect\<close> off a missing
  \<^verbatim>\<open>gatt\<close> throws a TypeError, which the \<^verbatim>\<open>catch\<close> block handles like a rejection.
\<close>

definition scanAfterRequestDevice ::
  "InfoBlob list \<Rightarrow> string + Device option \<Rightarrow> Component \<Rightarrow> ScanTask Outcome" where
  "scanAfterRequestDevice infoBlobs settled c0 =
     (case settled of
        Inl err \<Rightarrow>
          \<lparr>after = snd (scanCatch err (infoBlobs, c0)), calls = [], pending = None\<rparr>
      | Inr device \<Rightarrow>
          let c1 = c0\<lparr>bluetoothState := Connecting\<rparr> in
          (case device of
             None \<Rightarrow>
               \<lparr>after = snd (appendInfo (infoBlob Error ''No device found'')
                                (infoBlobs, c1\<lparr>bluetoothState := FinishedError\<rparr>)),
                calls = [], pending = None\<rparr>
           | Some dev \<Rightarrow>
               let st = appendInfo (infoBlob Info ''Connecting to GATT Server...'') (infoBlobs, c1) in
               (case gatt dev of
                  None \<Rightarrow>
                    \<lparr>after = snd (scanCatch ''TypeError: device.gatt is undefined'' st),
                     calls = [], pending = None\<rparr>
                | Some srv \<Rightarrow>
                    \<lparr>after = snd st, calls = [GattConnect srv],
                     pending = Some (AwaitConnect (fst st))\<rparr>)))"

text \<open>\<^verbatim>\<open>scan\<close> from the settlement of \<^verbatim>\<open>connect\<close> to its end.\<close>

definition scanAfterConnect ::
  "InfoBlob list \<Rightarrow> string + Server \<Rightarrow> Component \<Rightarrow> ScanTask Outcome" where
  "scanAfterConnect infoBlobs settled c0 =
     (case settled of
        Inl err \<Rightarrow>
          \<lparr>after = snd (scanCatch err (infoBlobs, c0)), calls = [], pending = None\<rparr>
      | Inr srv \<Rightarrow>
          let st = appendInfo (infoBlob Info ''Getting Service...'') (infoBlobs, c0) in
          \<lparr>after = (snd st)\<lparr>bluetoothState := ChoosingService, server := Some srv\<rparr>,
           calls = [], pending = None\<rparr>)"

section \<open>Service resolution, enumeration and subscription\<close>

text \<open>
  \<^verbatim>\<open>characteristics.sort((a, b) => a.uuid > b.uuid ? 1 : b.uuid > a.uuid ? -1 : 0)\<close>.
  Strings are compared code unit by code unit, a proper prefix before the longer string;
  identifiers are ASCII, where this is the order of \<^typ>\<open>string\<close>. \<^verbatim>\<open>Array.prototype.sort\<close> is a
  stable sort by the comparator: an insertion sort that puts an element before the first
  one the comparator does not rank below it.
\<close>

definition compareUuid :: "Characteristic \<Rightarrow> Characteristic \<Rightarrow> int" where
  "compareUuid a b = (if uuid a > uuid b then 1 else if uuid b > uuid a then - 1 else 0)"

fun insertBy :: "('a \<Rightarrow> 'a \<Rightarrow> int) \<Rightarrow> 'a \<Rightarrow> 'a list \<Rightarrow> 'a list" where
  "insertBy cmp x [] = [x]"
| "insertBy cmp x (y # ys) = (if cmp x y \<le> 0 then x # y # ys else y # insertBy cmp x ys)"

definition arraySort :: "('a \<Rightarrow> 'a \<Rightarrow> int) \<Rightarrow> 'a list \<Rightarrow> 'a list" where
  "arraySort cmp xs = foldr (insertBy cmp) xs []"

text \<open>
  \<^verbatim>\<open>Promise.all\<close> over the settlements of its promises: fulfilled with all the values when
  every promise is fulfilled, rejected with a rejection otherwise (the earliest in the
  list here; the component only records that there was one).
\<close>

fun promiseAll :: "(string + 'a) list \<Rightarrow> string + 'a list" where
  "promiseAll [] = Inr []"
| "promiseAll (Inl err # rest) = Inl err"
| "promiseAll (Inr v # rest) = (case promiseAll rest of Inl err \<Rightarrow> Inl err | Inr vs \<Rightarrow> Inr (v # vs))"

datatype ServiceTask =
    AwaitPrimaryService "InfoBlob list"
  | AwaitCharacteristics "InfoBlob list"
  | AwaitStartNotifications "InfoBlob list"

text \<open>
  The effect on \<^verbatim>\<open>[server, serviceUUID]\<close>. Its \<^verbatim>\<open>appendInfo\<close> only extends the local
  \<^verbatim>\<open>infoBlobs\<close>; the status log is not touched. Its \<^verbatim>\<open>catch\<close> block sets
  \<^verbatim>\<open>FinishedError\<close> and extends the local list.
\<close>

definition serverEffect :: "Component \<Rightarrow> ServiceTask Outcome" where
  "serverEffect c =
     (case server c of
        None \<Rightarrow> \<lparr>after = c, calls = [], pending = None\<rparr>
      | Some srv \<Rightarrow>
          if \<not> truthy (serviceUUID c) then \<lparr>after = c, calls = [], pending = None\<rparr>
          else
            \<lparr>after = c, calls = [GetPrimaryService srv (serviceUUID c)],
             pending = Some (AwaitPrimaryService ([] @ [infoBlob Info ''getPrimaryService'']))\<rparr>)"

definition serviceCatch :: "string \<Rightarrow> Component \<Rightarrow> ServiceTask Outcome" where
  "serviceCatch err c = \<lparr>after = c\<lparr>bluetoothState := FinishedError\<rparr>, calls = [], pending = None\<rparr>"

definition afterGetPrimaryService ::
  "InfoBlob list \<Rightarrow> string + Service \<Rightarrow> Component \<Rightarrow> ServiceTask Outcome" where
  "afterGetPrimaryService infoBlobs settled c =
     (case settled of
        Inl err \<Rightarrow> serviceCatch err c
      | Inr svc \<Rightarrow>
          \<lparr>after = c\<lparr>bluetoothState := GettingCharacteristics, service := Some svc\<rparr>,
           calls = [GetCharacteristics svc],
           pending = Some (AwaitCharacteristics infoBlobs)\<rparr>)"

definition afterGetCharacteristics ::
  "InfoBlob list \<Rightarrow> string + Characteristic list \<Rightarrow> Component \<Rightarrow> ServiceTask Outcome" where
  "afterGetCharacteristics infoBlobs settled c =
     (case settled of
        Inl err \<Rightarrow> serviceCatch err c
      | Inr found \<Rightarrow>
          let sorted_chars = arraySort compareUuid found in
          \<lparr>after = c\<lparr>characteristics := sorted_chars\<rparr>,
           calls = map StartNotifications sorted_chars,
           pending = Some (AwaitStartNotifications infoBlobs)\<rparr>)"

definition afterStartNotifications ::
  "InfoBlob list \<Rightarrow> (string + unit) list \<Rightarrow> Component \<Rightarrow> ServiceTask Outcome" where
  "afterStartNotifications infoBlobs settled c =
     (case promiseAll settled of
        Inl err \<Rightarrow> serviceCatch err c
      | Inr _ \<Rightarrow>
          \<lparr>after = c\<lparr>bluetoothState := FinishedSuccess, info := [infoBlob Success ''Connected'']\<rparr>,
           calls = [], pending = None\<rparr>)"

section \<open>A change of the options\<close>

text \<open>
  A new options object is rendered; then the effects whose dependencies changed run in
  the order of their declaration, each with the values of that render, and the state
  updates they request are applied together. The effect on \<^verbatim>\<open>optionsInHashParams\<close> stores
  the new alias mapping. When \<^verbatim>\<open>serviceUUID\<close> differs, the effect on
  \<^verbatim>\<open>[serviceUUID, reset]\<close> calls \<^verbatim>\<open>reset\<close>, and the effect on \<^verbatim>\<open>[server, serviceUUID]\<close> runs
  as well, still seeing the server handle of that render.
\<close>

definition keyAliasesEffect :: "Component \<Rightarrow> Component" where
  "keyAliasesEffect c = c\<lparr>keyAliases := newKeyAliases (optionsInHashParams c)\<rparr>"

definition optionsChanged :: "jsobject option \<Rightarrow> Component \<Rightarrow> ServiceTask Outcome" where
  "optionsChanged newOptions c0 =
     (let rendered = c0\<lparr>optionsInHashParams := newOptions\<rparr>;
          c1 = keyAliasesEffect rendered
      in if serviceUUID rendered = serviceUUID c0
         then \<lparr>after = c1, calls = [], pending = None\<rparr>
         else
           let started = serverEffect rendered in
           \<lparr>after = reset c1, calls = calls started, pending = pending started\<rparr>)"

section \<open>The notification listener\<close>

text \<open>
  \<^verbatim>\<open>metaframe.setOutputs\<close> is the callback of the host: absent (\<open>None\<close>), or a function that
  returns normally (\<open>None\<close>) or throws (\<open>Some\<close> of the error).
\<close>

type_synonym HostSetOutputs = "(Outputs \<Rightarrow> string option) option"

text \<open>
  \<^verbatim>\<open>keyAliases && keyAliases[c.uuid] ? keyAliases![c.uuid] : c.uuid\<close>
\<close>

definition resolveKey :: "jsobject option \<Rightarrow> string \<Rightarrow> jsval" where
  "resolveKey aliases charUuid =
     (case aliases of
        None \<Rightarrow> JString charUuid
      | Some obj \<Rightarrow> if truthy (getProp obj charUuid) then getProp obj charUuid else JString charUuid)"

text \<open>
  The \<^verbatim>\<open>try\<close> block of the listener, for the characteristic with the given identifier and
  the given \<^verbatim>\<open>c.value?.buffer\<close>. It yields the component as the block left it, the output
  objects handed to the host, and the exception that ended the block, if one did.
\<close>

record ListenerTry =
  left :: Component
  published :: "Outputs list"
  thrown :: "string option"

definition listenerTry ::
  "HostSetOutputs \<Rightarrow> string \<Rightarrow> byte list option \<Rightarrow> Component \<Rightarrow> ListenerTry" where
  "listenerTry setOutputsOfHost charUuid possibleArrayBuffer c =
     (let key = toString (resolveKey (keyAliases c) charUuid) in
      case decodeValue possibleArrayBuffer of
        Inl err \<Rightarrow> \<lparr>left = c, published = [], thrown = Some err\<rparr>
      | Inr val \<Rightarrow>
          (let newoutputs = [(key, val)];
               sent = (case setOutputsOfHost of None \<Rightarrow> [] | Some f \<Rightarrow> [newoutputs]);
               failure = (case setOutputsOfHost of None \<Rightarrow> None | Some f \<Rightarrow> f newoutputs)
           in (case failure of
                 Some err \<Rightarrow> \<lparr>left = c, published = sent, thrown = Some err\<rparr>
               | None \<Rightarrow>
                   if truthy (displayoutputs c)
                   then \<lparr>left = c\<lparr>outputsRef := AList.update key val (outputsRef c),
                                  outputs := newoutputs\<rparr>,
                         published = sent, thrown = None\<rparr>
                   else \<lparr>left = c, published = sent, thrown = None\<rparr>)))"

text \<open>The listener: the \<^verbatim>\<open>try\<close> block, and \<^verbatim>\<open>console.error(err)\<close> in the \<^verbatim>\<open>catch\<close> block.\<close>

record ListenerResult =
  component :: Component
  hostCalls :: "Outputs list"
  console :: "string list"

definition listener ::
  "HostSetOutputs \<Rightarrow> string \<Rightarrow> byte list option \<Rightarrow> Component \<Rightarrow> ListenerResult" where
  "listener setOutputsOfHost charUuid possibleArrayBuffer c =
     (let t = listenerTry setOutputsOfHost charUuid possibleArrayBuffer c in
      \<lparr>component = left t, hostCalls = published t,
       console = (case thrown t of None \<Rightarrow> [] | Some err \<Rightarrow> [err])\<rparr>)"

section \<open>Example values\<close>

text \<open>
  A session on the heart rate service with one configured alias, at two moments: while
  the subscriptions are being started, and once connected; and the same component with
  other options objects.
\<close>

definition exampleOptions :: jsobject where
  "exampleOptions =
     [(''serviceUUID'', JString ''180d''),
      (''displayoutputs'', JBoolean False),
      (''2a37'', JString ''heartRate'')]"

definition charA :: Characteristic where
  "charA = \<lparr>uuid = ''a'', instance_no = 0\<rparr>"

definition charB :: Characteristic where
  "charB = \<lparr>uuid = ''b'', instance_no = 1\<rparr>"

definition exampleSubscribing :: Component where
  "exampleSubscribing =
     \<lparr>optionsInHashParams = Some exampleOptions,
      keyAliases = newKeyAliases (Some exampleOptions),
      bluetoothState = GettingCharacteristics,
      characteristics = [charA, charB],
      server = Some 1,
      service = Some 2,
      info =
        [infoBlob Info ''scanning...'',
         infoBlob Info ''Requesting Bluetooth Device...serviceUUID=180d'',
         infoBlob Info ''Connecting to GATT Server...'',
         infoBlob Info ''Getting Service...''],
      outputsRef = [],
      outputs = []\<rparr>"

definition exampleConnected :: Component where
  "exampleConnected =
     exampleSubscribing
       \<lparr>bluetoothState := FinishedSuccess, info := [infoBlob Success ''Connected'']\<rparr>"

definition exampleWithOptions :: "jsobject \<Rightarrow> Component" where
  "exampleWithOptions obj = keyAliasesEffect (exampleConnected\<lparr>optionsInHashParams := Some obj\<rparr>)"

definition exampleOptionsEmptyAlias :: jsobject where
  "exampleOptionsEmptyAlias = [(''serviceUUID'', JString ''180d''), (''2a37'', JString [])]"

definition hostAccepts :: HostSetOutputs where
  "hostAccepts = Some (\<lambda>outs. None)"

definition hostThrows :: HostSetOutputs where
  "hostThrows = Some (\<lambda>outs. Some ''Error: host rejected the outputs'')"

section \<open>Auxiliary facts\<close>

subsection \<open>Typed array views and base64\<close>

lemma length_float32_elements: "length (float32_elements buffer) = length buffer div 4"
  by (induction buffer rule: float32_elements.induct) simp_all

lemma nth_float32_elements:
  "i < length buffer div 4 \<Longrightarrow>
   float32_elements buffer ! i =
     getFloat32LE (buffer ! (4 * i)) (buffer ! (4 * i + 1))
       (buffer ! (4 * i + 2)) (buffer ! (4 * i + 3))"
proof (induction buffer arbitrary: i rule: float32_elements.induct)
  case (1 b0 b1 b2 b3 rest)
  show ?case
  proof (cases i)
    case 0
    then show ?thesis by simp
  next
    case (Suc j)
    with "1.prems" have "j < length rest div 4" by simp
    from "1.IH" [OF this] Suc show ?thesis by (simp add: numeral_eq_Suc)
  qed
qed simp_all

text \<open>
  Little-endian: bit \<open>n\<close> of the 32-bit datum is bit \<open>n mod 8\<close> of the byte at offset
  \<open>n div 8\<close>.
\<close>

lemma bit_word32_of_le_bytes:
  "bit (word32_of_le_bytes b0 b1 b2 b3) n =
     (if n < 8 then bit b0 n
      else if n < 16 then bit b1 (n - 8)
      else if n < 24 then bit b2 (n - 16)
      else n < 32 \<and> bit b3 (n - 24))"
  by (auto simp: word32_of_le_bytes_def bit_simps dest: bit_imp_le_length)

lemma float32_of_bits_examples:
  "float32_of_bits 0x3F800000 = Finite 1"
  "float32_of_bits 0x7F800000 = PosInfinity"
  "float32_of_bits 0xFF800000 = NegInfinity"
  "float32_of_bits 0x7FC00000 = NaN"
  "float32_of_bits 0x80000000 = NegZero"
  "float32_of_bits 0 = Finite 0"
  "float32_of_bits 0x3E200000 = Finite (5 / 32)"
  by (simp_all add: float32_of_bits_def)

lemma length_btoa: "length (btoa bytes) = 4 * ((length bytes + 2) div 3)"
proof (induction bytes rule: btoa.induct)
  case (1 a b c rest)
  have "(length (a # b # c # rest) + 2) div 3 = Suc ((length rest + 2) div 3)"
    by simp
  with 1 show ?case by simp
qed simp_all

lemma btoa_examples:
  "btoa [77, 97, 110] = ''TWFu''"
  "btoa [77, 97] = ''TWE=''"
  "btoa [77] = ''TQ==''"
  "btoa [] = ''''"
  by (simp_all add: base64Char_def base64Alphabet_def)

text \<open>
  Given a view, the library function encodes the bytes; given the buffer itself, it
  encodes nothing.
\<close>

lemma bufferToBase64_Uint8Array: "bufferToBase64 (Uint8ArrayOf bytes) = btoa bytes"
  by (simp add: bufferToBase64_def arrayLikeElements_def)

lemma bufferToBase64_ArrayBuffer: "bufferToBase64 (ArrayBufferOf bytes) = ''''"
  by (simp add: bufferToBase64_def arrayLikeElements_def)

lemma decodeValue_third_branch:
  assumes "length buffer \<noteq> 1" and "length buffer mod 4 \<noteq> 0"
  shows "decodeValue (Some buffer) = Inr (OString (bufferToBase64 (ArrayBufferOf buffer)))"
    and "decodeValue (Some buffer) = Inr (OString '''')"
  using assms by (simp_all add: decodeValue_def bufferToBase64_ArrayBuffer)

text \<open>The guard on the byte length keeps the constructor from throwing.\<close>

lemma decodeValue_never_throws: "decodeValue possibleArrayBuffer \<noteq> Inl err"
  by (simp add: decodeValue_def newFloat32Array_def split: option.splits)

subsection \<open>Sorting by identifier\<close>

lemma insertBy_compareUuid: "insertBy compareUuid x ys = insort_key uuid x ys"
  by (induction ys) (auto simp: compareUuid_def)

lemma arraySort_compareUuid: "arraySort compareUuid found = sort_key uuid found"
  unfolding arraySort_def sort_key_def
  by (induction found) (simp_all add: insertBy_compareUuid)

lemma sorted_arraySort: "sorted (map uuid (arraySort compareUuid found))"
  by (simp add: arraySort_compareUuid)

lemma mset_arraySort: "mset (arraySort compareUuid found) = mset found"
  by (simp add: arraySort_compareUuid)

lemma afterGetCharacteristics_sorted:
  "sorted (map uuid (characteristics (after (afterGetCharacteristics blobs (Inr found) c)))) \<and>
   mset (characteristics (after (afterGetCharacteristics blobs (Inr found) c))) = mset found"
  by (simp add: afterGetCharacteristics_def Let_def sorted_arraySort mset_arraySort)

subsection \<open>Settlement of the subscriptions\<close>

lemma promiseAll_fulfilled:
  "list_all (\<lambda>s. \<not> isl s) settled \<Longrightarrow> promiseAll settled = Inr (map projr settled)"
  by (induction settled rule: promiseAll.induct) simp_all

lemma promiseAll_rejected:
  "\<not> list_all (\<lambda>s. \<not> isl s) settled \<Longrightarrow> \<exists>err. promiseAll settled = Inl err"
  by (induction settled rule: promiseAll.induct) (auto split: sum.splits)

lemma afterStartNotifications_state:
  "bluetoothState (after (afterStartNotifications blobs settled c)) =
     (if list_all (\<lambda>s. \<not> isl s) settled then FinishedSuccess else FinishedError)"
proof (cases "list_all (\<lambda>s. \<not> isl s) settled")
  case True
  then show ?thesis
    by (simp add: afterStartNotifications_def promiseAll_fulfilled)
next
  case False
  from promiseAll_rejected [OF this] obtain err where "promiseAll settled = Inl err" ..
  with False show ?thesis
    by (simp add: afterStartNotifications_def serviceCatch_def)
qed

subsection \<open>The alias mapping\<close>

lemma map_of_fromEntries_aux:
  "map_of (foldl (\<lambda>obj (k, v). AList.update k v obj) acc (map (\<lambda>key. (key, g key)) ks)) k =
     (if k \<in> set ks then Some (g k) else map_of acc k)"
  by (induction ks arbitrary: acc) (auto simp: update_conv')

lemma getProp_objectFromEntries:
  "getProp (objectFromEntries (map (\<lambda>key. (key, g key)) ks)) k =
     (if k \<in> set ks then g k else JUndefined)"
  by (simp add: getProp_def objectFromEntries_def map_of_fromEntries_aux)

lemma getProp_absent:
  assumes "k \<notin> set (objectKeys obj)"
  shows "getProp obj k = JUndefined"
proof -
  from assms have "map_of obj k = None"
    by (simp add: objectKeys_def map_of_eq_None_iff)
  then show ?thesis by (simp add: getProp_def)
qed

lemma getProp_newKeyAliases:
  "newKeyAliases (Some obj) = Some aliases \<Longrightarrow>
   getProp aliases k = (if JString k = serviceUUIDOf (Some obj) then JUndefined else getProp obj k)"
  by (auto simp: newKeyAliases_def getProp_objectFromEntries getProp_absent)

text \<open>
  For an object, whose keys are distinct, the alias mapping is the object itself without
  the entries whose key is the value of the service identifier.
\<close>

lemma update_fresh: "k \<notin> fst ` set al \<Longrightarrow> AList.update k v al = al @ [(k, v)]"
  by (induction al) auto

lemma objectFromEntries_distinct_aux:
  "distinct (map fst (acc @ es)) \<Longrightarrow>
   foldl (\<lambda>obj (k, v). AList.update k v obj) acc es = acc @ es"
proof (induction es arbitrary: acc)
  case Nil
  then show ?case by simp
next
  case (Cons e es)
  obtain k v where e: "e = (k, v)" by (cases e)
  from Cons.prems e have fresh: "k \<notin> fst ` set acc" by auto
  from Cons.prems e have "distinct (map fst ((acc @ [(k, v)]) @ es))" by simp
  from Cons.IH [OF this] fresh e show ?case by (simp add: update_fresh)
qed

lemma objectFromEntries_distinct:
  "distinct (map fst es) \<Longrightarrow> objectFromEntries es = es"
  using objectFromEntries_distinct_aux [of "[]" es] by (simp add: objectFromEntries_def)

lemma entries_of_keys:
  assumes "distinct (map fst obj)"
  shows "map (\<lambda>key. (key, getProp obj key)) (filter P (map fst obj)) =
           filter (\<lambda>(k, v). P k) obj"
proof -
  have "map (\<lambda>key. (key, getProp obj key)) (filter P (map fst xs)) = filter (\<lambda>(k, v). P k) xs"
    if "set xs \<subseteq> set obj" for xs
    using that
  proof (induction xs)
    case Nil
    then show ?case by simp
  next
    case (Cons x xs)
    obtain k v where x: "x = (k, v)" by (cases x)
    with Cons.prems have "(k, v) \<in> set obj" by simp
    with assms have "map_of obj k = Some v" by simp
    then have "getProp obj k = v" by (simp add: getProp_def)
    with Cons x show ?case by simp
  qed
  then show ?thesis by simp
qed

lemma newKeyAliases_filter:
  assumes "distinct (objectKeys obj)"
  shows "newKeyAliases (Some obj) =
           Some (filter (\<lambda>(k, v). JString k \<noteq> serviceUUIDOf (Some obj)) obj)"
proof -
  let ?P = "\<lambda>k. JString k \<noteq> serviceUUIDOf (Some obj)"
  from assms have d: "distinct (map fst obj)" by (simp add: objectKeys_def)
  then have "distinct (map fst (filter (\<lambda>(k, v). ?P k) obj))"
    by (simp add: distinct_map_filter)
  then have "objectFromEntries (filter (\<lambda>(k, v). ?P k) obj) = filter (\<lambda>(k, v). ?P k) obj"
    by (rule objectFromEntries_distinct)
  with d show ?thesis
    by (simp add: newKeyAliases_def objectKeys_def entries_of_keys)
qed

lemma resolveKey_no_alias:
  "aliases = None \<or> (\<exists>obj. aliases = Some obj \<and> map_of obj X = None) \<Longrightarrow>
   resolveKey aliases X = JString X"
  by (auto simp: resolveKey_def getProp_def truthy_def)

lemma resolveKey_alias:
  "map_of obj X = Some (JString A) \<Longrightarrow> A \<noteq> [] \<Longrightarrow> resolveKey (Some obj) X = JString A"
  by (simp add: resolveKey_def getProp_def truthy_def)

lemma resolveKey_empty_alias:
  "map_of obj X = Some (JString []) \<Longrightarrow> resolveKey (Some obj) X = JString X"
  by (simp add: resolveKey_def getProp_def truthy_def)

subsection \<open>The listener\<close>

lemma hostCalls_listener:
  "decodeValue buf = Inr val \<Longrightarrow>
   hostCalls (listener (Some f) X buf c) = [[(toString (resolveKey (keyAliases c) X), val)]]"
  by (simp add: listener_def listenerTry_def Let_def split: option.splits)

text \<open>Whether it fails or not, the listener leaves the session and the status log alone.\<close>

lemma listener_keeps_session:
  "bluetoothState (component (listener host X buf c)) = bluetoothState c \<and>
   server (component (listener host X buf c)) = server c \<and>
   service (component (listener host X buf c)) = service c \<and>
   characteristics (component (listener host X buf c)) = characteristics c \<and>
   info (component (listener host X buf c)) = info c"
  by (simp add: listener_def listenerTry_def Let_def split: sum.splits option.splits)

subsection \<open>A scan that succeeds\<close>

text \<open>
  With the capability present, a device chosen and the connection made, \<^verbatim>\<open>scan\<close> ends
  in \<open>ChoosingService\<close> with the server handle stored, and the effect on
  \<^verbatim>\<open>[server, serviceUUID]\<close> then asks for the configured service.
\<close>

lemma scanAfterConnect_fulfilled:
  "bluetoothState (after (scanAfterConnect blobs (Inr srv) c)) = ChoosingService \<and>
   server (after (scanAfterConnect blobs (Inr srv) c)) = Some srv \<and>
   info (after (scanAfterConnect blobs (Inr srv) c)) =
     blobs @ [infoBlob Info ''Getting Service...'']"
  by (simp add: scanAfterConnect_def appendInfo_def Let_def)

lemma scan_example:
  "calls (scan True exampleConnected) = [RequestDevice (Filters [[JString ''180d'']])] \<and>
   bluetoothState (after (scan True exampleConnected)) = Scanning \<and>
   map message (info (after (scan True exampleConnected))) =
     [Some ''scanning...'', Some ''Requesting Bluetooth Device...serviceUUID=180d'']"
  by (simp add: scan_def appendInfo_def reset_def infoBlob_def Let_def exampleConnected_def
      exampleSubscribing_def exampleOptions_def serviceUUID_def serviceUUIDOf_def getProp_def
      truthy_def toString_def)

subsection \<open>Effects of one change of the options\<close>

text \<open>
  When the service identifier changes to a truthy value while a server handle is stored,
  the effect on \<^verbatim>\<open>[server, serviceUUID]\<close> of the same render asks that server for the new
  service; the request is in flight when the component has been reset.
\<close>

lemma optionsChanged_starts_resolution:
  assumes "serviceUUIDOf newOptions \<noteq> serviceUUID c"
      and "truthy (serviceUUIDOf newOptions)"
      and "server c = Some srv"
  shows "calls (optionsChanged newOptions c) = [GetPrimaryService srv (serviceUUIDOf newOptions)] \<and>
         pending (optionsChanged newOptions c) =
           Some (AwaitPrimaryService [infoBlob Info ''getPrimaryService''])"
  using assms
  by (simp add: optionsChanged_def serverEffect_def serviceUUID_def Let_def)

section \<open>The payload decoder: properties\<close>

text \<open>
  C1. The claim: a payload whose byte length is 0, 2, 3 or otherwise neither 1 nor a
  positive multiple of 4 decodes to the base64 encoding of exactly its bytes. The
  listener does not do this. For the two bytes of the text \<open>Ma\<close>, whose base64 encoding is
  \<open>TWE=\<close>, it passes the buffer itself, not a byte view of it, to the library function and
  publishes the empty string; the same call on a \<^verbatim>\<open>Uint8Array\<close> view of the buffer would
  give the encoding. The payload of length 0 does not reach that call: 0 is a multiple
  of 4, and the payload decodes to the empty sequence of numbers.
\<close>

theorem decode_two_bytes_loses_payload:
  "decodeValue (Some [77, 97]) = Inr (OString '''') \<and>
   decodeValue (Some [77, 97]) \<noteq> Inr (OString (btoa [77, 97])) \<and>
   btoa [77, 97] = ''TWE='' \<and>
   bufferToBase64 (Uint8ArrayOf [77, 97]) = ''TWE='' \<and>
   decodeValue (Some []) = Inr (ONumbers [])"
  by (simp add: decodeValue_def newFloat32Array_def bufferToBase64_def arrayLikeElements_def
      base64Char_def base64Alphabet_def)

text \<open>
  C5. A payload of exactly one byte decodes to a boolean, which is true if and only if the
  byte equals 1 and false for every other byte.
\<close>

theorem decode_single_byte:
  assumes "length buffer = 1"
  shows "decodeValue (Some buffer) = Inr (OBoolean (hd buffer = 1)) \<and>
         (decodeValue (Some buffer) = Inr (OBoolean True)) = (hd buffer = 1) \<and>
         (decodeValue (Some buffer) = Inr (OBoolean False)) = (hd buffer \<noteq> 1)"
  using assms by (cases buffer) (auto simp: decodeValue_def)

theorem decode_single_byte_witness:
  "length [1 :: byte] = 1 \<and> decodeValue (Some [1]) = Inr (OBoolean True) \<and>
   length [255 :: byte] = 1 \<and> decodeValue (Some [255]) = Inr (OBoolean False)"
  using decode_single_byte [of "[1]"] decode_single_byte [of "[255]"] by simp

text \<open>
  C6. A payload whose byte length is a positive multiple of 4 decodes to a sequence of
  exactly length/4 numbers, in order; number \<open>i\<close> is the binary32 value of the four bytes
  at offsets \<open>4 i\<close> to \<open>4 i + 3\<close>, read in little-endian order.
\<close>

theorem decode_float32_sequence:
  assumes "0 < length buffer" and "length buffer mod 4 = 0"
  shows "decodeValue (Some buffer) = Inr (ONumbers (float32_elements buffer)) \<and>
         length (float32_elements buffer) = length buffer div 4 \<and>
         (\<forall>i < length buffer div 4.
            float32_elements buffer ! i =
              float32_of_bits
                (word32_of_le_bytes (buffer ! (4 * i)) (buffer ! (4 * i + 1))
                   (buffer ! (4 * i + 2)) (buffer ! (4 * i + 3))))"
proof -
  from assms have "length buffer \<noteq> 1" by auto
  with assms have "decodeValue (Some buffer) = Inr (ONumbers (float32_elements buffer))"
    by (simp add: decodeValue_def newFloat32Array_def)
  then show ?thesis
    by (simp add: length_float32_elements nth_float32_elements getFloat32LE_def)
qed

text \<open>Eight bytes: the little-endian binary32 encodings of 1.0 and of -10.0.\<close>

theorem decode_float32_sequence_witness:
  "0 < length [0, 0, 128, 63, 0, 0, 32, 193 :: byte] \<and>
   length [0, 0, 128, 63, 0, 0, 32, 193 :: byte] mod 4 = 0 \<and>
   decodeValue (Some [0, 0, 128, 63, 0, 0, 32, 193]) = Inr (ONumbers [Finite 1, Finite (- 10)])"
  using decode_float32_sequence [of "[0, 0, 128, 63, 0, 0, 32, 193]"]
  by (simp add: getFloat32LE_def word32_of_le_bytes_def float32_of_bits_def)

section \<open>The connection state machine: properties\<close>

text \<open>
  C2. When the service resolves and the enumeration yields two characteristics with the
  identifiers \<open>b\<close> and \<open>a\<close>, in either order, the stored characteristic set is ordered
  \<open>a\<close>, \<open>b\<close>; whatever is enumerated is stored sorted by identifier, ascending, with
  nothing added or lost. Once every subscription has succeeded the state is
  \<open>FinishedSuccess\<close> and the status log, whatever it held, is the single entry of severity
  success.
\<close>

theorem characteristics_sorted_then_success:
  assumes "uuid cb = ''b''" and "uuid ca = ''a''"
      and "found = [cb, ca] \<or> found = [ca, cb]"
      and "list_all (\<lambda>s. \<not> isl s) subscriptions"
  shows "let resolved = afterGetPrimaryService blobs (Inr svc) c;
             enumerated = afterGetCharacteristics blobs (Inr found) (after resolved);
             subscribed = afterStartNotifications blobs subscriptions (after enumerated);
             other = afterGetCharacteristics blobs (Inr others) (after resolved)
         in characteristics (after enumerated) = [ca, cb] \<and>
            map uuid (characteristics (after enumerated)) = [''a'', ''b''] \<and>
            calls enumerated = [StartNotifications ca, StartNotifications cb] \<and>
            bluetoothState (after subscribed) = FinishedSuccess \<and>
            info (after subscribed) = [infoBlob Success ''Connected''] \<and>
            length (info (after subscribed)) = 1 \<and>
            characteristics (after subscribed) = [ca, cb] \<and>
            sorted (map uuid (characteristics (after other))) \<and>
            mset (characteristics (after other)) = mset others"
proof -
  have "arraySort compareUuid [cb, ca] = [ca, cb]"
    and "arraySort compareUuid [ca, cb] = [ca, cb]"
    using assms(1,2) by (simp_all add: arraySort_def compareUuid_def)
  with assms(3) have stored: "arraySort compareUuid found = [ca, cb]"
    by auto
  have "sorted (map uuid (arraySort compareUuid others))"
    and "mset (arraySort compareUuid others) = mset others"
    by (simp_all add: sorted_arraySort mset_arraySort)
  with stored show ?thesis
    using assms(1,2,4)
    by (simp add: afterGetPrimaryService_def afterGetCharacteristics_def
        afterStartNotifications_def promiseAll_fulfilled Let_def)
qed

text \<open>
  The two orders of enumeration on the example session: \<open>b\<close> before \<open>a\<close>, and \<open>a\<close> before
  \<open>b\<close>.
\<close>

theorem characteristics_sorted_then_success_witness:
  "uuid charB = ''b'' \<and> uuid charA = ''a'' \<and>
   list_all (\<lambda>s. \<not> isl s) [Inr (), Inr () :: string + unit] \<and>
   characteristics
     (after (afterGetCharacteristics []
        (Inr [charB, charA]) (after (afterGetPrimaryService [] (Inr 2) exampleSubscribing)))) =
     [charA, charB] \<and>
   characteristics
     (after (afterGetCharacteristics []
        (Inr [charA, charB]) (after (afterGetPrimaryService [] (Inr 2) exampleSubscribing)))) =
     [charA, charB] \<and>
   bluetoothState
     (after (afterStartNotifications [] [Inr (), Inr ()]
        (after (afterGetCharacteristics []
           (Inr [charB, charA]) (after (afterGetPrimaryService [] (Inr 2) exampleSubscribing)))))) =
     FinishedSuccess \<and>
   info
     (after (afterStartNotifications [] [Inr (), Inr ()]
        (after (afterGetCharacteristics []
           (Inr [charA, charB]) (after (afterGetPrimaryService [] (Inr 2) exampleSubscribing)))))) =
     [infoBlob Success ''Connected'']"
  using characteristics_sorted_then_success
    [of charB charA "[charB, charA]" "[Inr (), Inr ()]" "[]" 2 exampleSubscribing "[]"]
    characteristics_sorted_then_success
    [of charB charA "[charA, charB]" "[Inr (), Inr ()]" "[]" 2 exampleSubscribing "[]"]
  by (simp add: charA_def charB_def Let_def)

text \<open>
  C3. Without the platform Bluetooth capability, \<^verbatim>\<open>scan\<close> ends in \<open>FinishedError\<close>; the
  status log holds the entry \<open>scanning...\<close> followed by exactly one entry of severity
  error; no device request is made and nothing is left pending.
\<close>

theorem scan_without_bluetooth:
  "bluetoothState (after (scan False c)) = FinishedError \<and>
   info (after (scan False c)) =
     [infoBlob Info ''scanning...'',
      infoBlob Error
        ''Browser does not support bluetooth https://caniuse.com/#feat=web-bluetooth''] \<and>
   length (filter (\<lambda>blob. status blob = Some Error) (info (after (scan False c)))) = 1 \<and>
   calls (scan False c) = [] \<and>
   pending (scan False c) = None"
  by (simp add: scan_def appendInfo_def reset_def infoBlob_def Let_def)

text \<open>
  C4 as stated fails. \<^verbatim>\<open>reset\<close> puts the component in \<open>Begin\<close> with an empty
  characteristic set, but the subscriptions that were in flight still settle into it:
  fulfilled, the state is \<open>FinishedSuccess\<close>; one rejected, \<open>FinishedError\<close>. An
  enumeration that was in flight stores its characteristics again.
\<close>

theorem reset_does_not_cancel_counterexample:
  "bluetoothState (reset exampleSubscribing) = Begin \<and>
   bluetoothState
     (after (afterStartNotifications [] [Inr (), Inr ()] (reset exampleSubscribing))) =
     FinishedSuccess \<and>
   bluetoothState
     (after (afterStartNotifications [] [Inr (), Inl ''NetworkError''] (reset exampleSubscribing))) =
     FinishedError \<and>
   characteristics (reset exampleSubscribing) = [] \<and>
   characteristics
     (after (afterGetCharacteristics [] (Inr [charB, charA]) (reset exampleSubscribing))) =
     [charA, charB]"
  by (simp add: reset_def exampleSubscribing_def afterStartNotifications_def
      afterGetCharacteristics_def serviceCatch_def arraySort_def compareUuid_def
      charA_def charB_def)

text \<open>
  C4, as amended. \<^verbatim>\<open>reset\<close> makes the state \<open>Begin\<close> at once. Nothing cancels or guards an
  operation in flight: when the subscriptions settle afterwards the state becomes
  \<open>FinishedSuccess\<close> if all were fulfilled and \<open>FinishedError\<close> otherwise, the
  characteristic set staying empty; when a service resolution settles afterwards the
  state becomes \<open>GettingCharacteristics\<close> with the service handle stored, or
  \<open>FinishedError\<close>; when an enumeration settles afterwards the characteristic set is
  stored again, sorted, or the state becomes \<open>FinishedError\<close>.
\<close>

theorem settlement_after_reset:
  "bluetoothState (reset c) = Begin \<and>
   bluetoothState (after (afterStartNotifications blobs subscriptions (reset c))) =
     (if list_all (\<lambda>s. \<not> isl s) subscriptions then FinishedSuccess else FinishedError) \<and>
   characteristics (after (afterStartNotifications blobs subscriptions (reset c))) = [] \<and>
   bluetoothState (after (afterGetPrimaryService blobs (Inr svc) (reset c))) =
     GettingCharacteristics \<and>
   service (after (afterGetPrimaryService blobs (Inr svc) (reset c))) = Some svc \<and>
   bluetoothState (after (afterGetPrimaryService blobs (Inl err) (reset c))) = FinishedError \<and>
   characteristics (after (afterGetCharacteristics blobs (Inr found) (reset c))) =
     arraySort compareUuid found \<and>
   bluetoothState (after (afterGetCharacteristics blobs (Inl err) (reset c))) = FinishedError"
proof -
  have "bluetoothState (reset c) = Begin"
    by (simp add: reset_def)
  moreover
  have "characteristics (after (afterStartNotifications blobs subscriptions (reset c))) = []"
    by (cases "promiseAll subscriptions")
      (simp_all add: afterStartNotifications_def serviceCatch_def reset_def)
  moreover
  have "bluetoothState (after (afterGetPrimaryService blobs (Inr svc) (reset c))) =
          GettingCharacteristics"
    and "service (after (afterGetPrimaryService blobs (Inr svc) (reset c))) = Some svc"
    and "bluetoothState (after (afterGetPrimaryService blobs (Inl err) (reset c))) = FinishedError"
    by (simp_all add: afterGetPrimaryService_def serviceCatch_def)
  moreover
  have "characteristics (after (afterGetCharacteristics blobs (Inr found) (reset c))) =
          arraySort compareUuid found"
    and "bluetoothState (after (afterGetCharacteristics blobs (Inl err) (reset c))) = FinishedError"
    by (simp_all add: afterGetCharacteristics_def serviceCatch_def Let_def)
  ultimately show ?thesis
    by (simp add: afterStartNotifications_state)
qed

text \<open>
  C7. When the options change so that the service identifier differs, in any state other
  than \<open>Begin\<close>, the component ends in \<open>Begin\<close> with an empty status log, an empty
  characteristic set, and neither a server nor a service handle.
\<close>

theorem service_identifier_change_resets:
  assumes "serviceUUIDOf newOptions \<noteq> serviceUUID c" and "bluetoothState c \<noteq> Begin"
  shows "bluetoothState (after (optionsChanged newOptions c)) = Begin \<and>
         info (after (optionsChanged newOptions c)) = [] \<and>
         characteristics (after (optionsChanged newOptions c)) = [] \<and>
         server (after (optionsChanged newOptions c)) = None \<and>
         service (after (optionsChanged newOptions c)) = None"
  using assms(1)
  by (simp add: optionsChanged_def serviceUUID_def keyAliasesEffect_def reset_def Let_def)

theorem service_identifier_change_resets_witness:
  "serviceUUIDOf (Some [(''serviceUUID'', JString ''180f'')]) \<noteq> serviceUUID exampleConnected \<and>
   bluetoothState exampleConnected \<noteq> Begin \<and>
   bluetoothState
     (after (optionsChanged (Some [(''serviceUUID'', JString ''180f'')]) exampleConnected)) = Begin \<and>
   info (after (optionsChanged (Some [(''serviceUUID'', JString ''180f'')]) exampleConnected)) = [] \<and>
   characteristics
     (after (optionsChanged (Some [(''serviceUUID'', JString ''180f'')]) exampleConnected)) = [] \<and>
   server (after (optionsChanged (Some [(''serviceUUID'', JString ''180f'')]) exampleConnected)) = None \<and>
   service (after (optionsChanged (Some [(''serviceUUID'', JString ''180f'')]) exampleConnected)) = None"
proof -
  have differs:
    "serviceUUIDOf (Some [(''serviceUUID'', JString ''180f'')]) \<noteq> serviceUUID exampleConnected"
    by (simp add: serviceUUIDOf_def serviceUUID_def exampleConnected_def exampleSubscribing_def
        exampleOptions_def getProp_def)
  have connected: "bluetoothState exampleConnected \<noteq> Begin"
    by (simp add: exampleConnected_def)
  from service_identifier_change_resets [OF differs connected] differs connected
  show ?thesis by simp
qed

section \<open>The output publisher: properties\<close>

text \<open>
  C8, as amended. For a notification on the characteristic with identifier \<open>X\<close> whose
  payload decodes to \<open>val\<close>, the host receives one output object with the single entry
  \<open>key \<mapsto> val\<close>: the key is \<open>X\<close> when no alias is configured for \<open>X\<close>, it is \<open>A\<close> when the
  non-empty string \<open>A\<close> is configured as the alias of \<open>X\<close>, and it is \<open>X\<close> again when the
  alias configured for \<open>X\<close> is the empty string.
\<close>

theorem published_key_resolution:
  assumes "decodeValue buf = Inr val"
  shows "(keyAliases c = None \<or> (\<exists>obj. keyAliases c = Some obj \<and> map_of obj X = None) \<longrightarrow>
            hostCalls (listener (Some f) X buf c) = [[(X, val)]]) \<and>
         (\<forall>obj A. keyAliases c = Some obj \<and> map_of obj X = Some (JString A) \<and> A \<noteq> [] \<longrightarrow>
            hostCalls (listener (Some f) X buf c) = [[(A, val)]]) \<and>
         (\<forall>obj. keyAliases c = Some obj \<and> map_of obj X = Some (JString []) \<longrightarrow>
            hostCalls (listener (Some f) X buf c) = [[(X, val)]])"
  using assms
  by (auto simp: hostCalls_listener resolveKey_def getProp_def truthy_def toString_def)

text \<open>
  On the connected example the alias \<open>heartRate\<close> is configured for \<open>2a37\<close> and none for
  \<open>2a38\<close>; with the options of the second example the alias of \<open>2a37\<close> is the empty
  string.
\<close>

theorem published_key_resolution_witness:
  "decodeValue (Some [1]) = Inr (OBoolean True) \<and>
   keyAliases exampleConnected =
     Some [(''serviceUUID'', JString ''180d''), (''displayoutputs'', JBoolean False),
           (''2a37'', JString ''heartRate'')] \<and>
   hostCalls (listener hostAccepts ''2a37'' (Some [1]) exampleConnected) =
     [[(''heartRate'', OBoolean True)]] \<and>
   hostCalls (listener hostAccepts ''2a38'' (Some [1]) exampleConnected) =
     [[(''2a38'', OBoolean True)]] \<and>
   keyAliases (exampleWithOptions exampleOptionsEmptyAlias) =
     Some [(''serviceUUID'', JString ''180d''), (''2a37'', JString [])] \<and>
   hostCalls
     (listener hostAccepts ''2a37'' (Some [1]) (exampleWithOptions exampleOptionsEmptyAlias)) =
     [[(''2a37'', OBoolean True)]]"
proof -
  have decoded: "decodeValue (Some [1]) = Inr (OBoolean True)"
    by (simp add: decodeValue_def)
  have aliases: "keyAliases exampleConnected =
     Some [(''serviceUUID'', JString ''180d''), (''displayoutputs'', JBoolean False),
           (''2a37'', JString ''heartRate'')]"
    by (simp add: exampleConnected_def exampleSubscribing_def exampleOptions_def
        newKeyAliases_def objectKeys_def objectFromEntries_def getProp_def serviceUUIDOf_def)
  have empty: "keyAliases (exampleWithOptions exampleOptionsEmptyAlias) =
     Some [(''serviceUUID'', JString ''180d''), (''2a37'', JString [])]"
    by (simp add: exampleWithOptions_def exampleOptionsEmptyAlias_def keyAliasesEffect_def
        newKeyAliases_def objectKeys_def objectFromEntries_def getProp_def serviceUUIDOf_def)
  from published_key_resolution [OF decoded, of exampleConnected "''2a37''" "\<lambda>outs. None"]
    published_key_resolution [OF decoded, of exampleConnected "''2a38''" "\<lambda>outs. None"]
    published_key_resolution
      [OF decoded, of "exampleWithOptions exampleOptionsEmptyAlias" "''2a37''" "\<lambda>outs. None"]
    decoded aliases empty
  show ?thesis by (simp add: hostAccepts_def)
qed

text \<open>
  C8 as stated fails for the empty alias. The options configure the empty string as the
  alias of \<open>2a37\<close>; the alias mapping built from them holds that entry; the empty string
  is falsy, so the output is published under \<open>2a37\<close>, not under the alias.
\<close>

theorem empty_alias_counterexample:
  "optionsInHashParams (exampleWithOptions exampleOptionsEmptyAlias) =
     Some exampleOptionsEmptyAlias \<and>
   keyAliases (exampleWithOptions exampleOptionsEmptyAlias) = Some exampleOptionsEmptyAlias \<and>
   map_of exampleOptionsEmptyAlias ''2a37'' = Some (JString []) \<and>
   hostCalls
     (listener hostAccepts ''2a37'' (Some [1]) (exampleWithOptions exampleOptionsEmptyAlias)) =
     [[(''2a37'', OBoolean True)]] \<and>
   hostCalls
     (listener hostAccepts ''2a37'' (Some [1]) (exampleWithOptions exampleOptionsEmptyAlias)) \<noteq>
     [[([], OBoolean True)]]"
  by (simp add: exampleWithOptions_def exampleOptionsEmptyAlias_def exampleConnected_def
      exampleSubscribing_def exampleOptions_def keyAliasesEffect_def newKeyAliases_def
      objectKeys_def objectFromEntries_def getProp_def serviceUUIDOf_def listener_def
      listenerTry_def hostAccepts_def decodeValue_def resolveKey_def truthy_def toString_def
      displayoutputs_def displayoutputsOf_def Let_def)

text \<open>
  C9. When the body of the listener throws, the error is caught and written to the
  console, and the component is left as it was: the connection state, the server and
  service handles and the characteristic set are unchanged.
\<close>

theorem listener_failure_is_contained:
  assumes "thrown (listenerTry host X buf c) = Some err"
  shows "console (listener host X buf c) = [err] \<and>
         component (listener host X buf c) = c \<and>
         bluetoothState (component (listener host X buf c)) = bluetoothState c \<and>
         server (component (listener host X buf c)) = server c \<and>
         service (component (listener host X buf c)) = service c \<and>
         characteristics (component (listener host X buf c)) = characteristics c"
proof -
  from assms have "left (listenerTry host X buf c) = c"
    by (simp add: listenerTry_def Let_def split: sum.splits option.splits if_splits)
  with assms show ?thesis
    by (simp add: listener_def Let_def)
qed

theorem listener_failure_is_contained_witness:
  "thrown (listenerTry hostThrows ''2a37'' (Some [1]) exampleConnected) =
     Some ''Error: host rejected the outputs'' \<and>
   console (listener hostThrows ''2a37'' (Some [1]) exampleConnected) =
     [''Error: host rejected the outputs''] \<and>
   component (listener hostThrows ''2a37'' (Some [1]) exampleConnected) = exampleConnected \<and>
   bluetoothState (component (listener hostThrows ''2a37'' (Some [1]) exampleConnected)) =
     FinishedSuccess"
proof -
  have throws: "thrown (listenerTry hostThrows ''2a37'' (Some [1]) exampleConnected) =
     Some ''Error: host rejected the outputs''"
    by (simp add: listenerTry_def hostThrows_def decodeValue_def Let_def)
  have "bluetoothState exampleConnected = FinishedSuccess"
    by (simp add: exampleConnected_def)
  with listener_failure_is_contained [OF throws] throws show ?thesis by simp
qed

text \<open>
  C10, as amended. The alias mapping is the whole options object without the entries
  whose key equals the value of the service identifier; the entry named \<open>serviceUUID\<close>
  is not what is removed. So the entries keyed \<open>serviceUUID\<close> and \<open>displayoutputs\<close> stay in
  the mapping unless the value of the service identifier is that very key, and a
  characteristic whose identifier is literally one of these two names is published under
  the value of the entry when that value is truthy (a non-empty string, or \<open>true\<close>), and
  under its own identifier when it is not.
\<close>

theorem option_entries_act_as_aliases:
  assumes "optionsInHashParams c = Some obj"
      and "X = ''serviceUUID'' \<or> X = ''displayoutputs''"
      and "serviceUUID c \<noteq> JString X"
      and "decodeValue buf = Inr val"
  shows "\<exists>aliases.
           keyAliases (keyAliasesEffect c) = Some aliases \<and>
           (distinct (objectKeys obj) \<longrightarrow>
              aliases = filter (\<lambda>(k, v). JString k \<noteq> serviceUUID c) obj) \<and>
           (\<forall>key. getProp aliases key =
                   (if JString key = serviceUUID c then JUndefined else getProp obj key)) \<and>
           getProp aliases X = getProp obj X \<and>
           hostCalls (listener (Some f) X buf (keyAliasesEffect c)) =
             [[(if truthy (getProp obj X) then toString (getProp obj X) else X, val)]]"
proof -
  obtain aliases where built: "newKeyAliases (Some obj) = Some aliases"
    by (simp add: newKeyAliases_def)
  with assms(1) have stored: "keyAliases (keyAliasesEffect c) = Some aliases"
    by (simp add: keyAliasesEffect_def)
  have entries: "aliases = filter (\<lambda>(k, v). JString k \<noteq> serviceUUID c) obj"
    if "distinct (objectKeys obj)"
    using newKeyAliases_filter [OF that] built assms(1) by (simp add: serviceUUID_def)
  have lookup: "getProp aliases key =
      (if JString key = serviceUUID c then JUndefined else getProp obj key)" for key
    using getProp_newKeyAliases [OF built, of key] assms(1) by (simp add: serviceUUID_def)
  with assms(3) have kept: "getProp aliases X = getProp obj X"
    by auto
  have "resolveKey (Some aliases) X =
      (if truthy (getProp obj X) then getProp obj X else JString X)"
    by (simp add: resolveKey_def kept)
  with stored have "hostCalls (listener (Some f) X buf (keyAliasesEffect c)) =
      [[(if truthy (getProp obj X) then toString (getProp obj X) else X, val)]]"
    by (simp add: hostCalls_listener [OF assms(4)] toString_def)
  with stored entries lookup kept show ?thesis by blast
qed

theorem option_entries_act_as_aliases_witness:
  "optionsInHashParams exampleConnected = Some exampleOptions \<and>
   serviceUUID exampleConnected \<noteq> JString ''serviceUUID'' \<and>
   decodeValue (Some [1]) = Inr (OBoolean True) \<and>
   getProp exampleOptions ''serviceUUID'' = JString ''180d'' \<and>
   hostCalls (listener hostAccepts ''serviceUUID'' (Some [1]) (keyAliasesEffect exampleConnected)) =
     [[(''180d'', OBoolean True)]]"
proof -
  have opts: "optionsInHashParams exampleConnected = Some exampleOptions"
    by (simp add: exampleConnected_def exampleSubscribing_def)
  have name: "''serviceUUID'' = ''serviceUUID'' \<or> ''serviceUUID'' = ''displayoutputs''"
    by simp
  have val: "getProp exampleOptions ''serviceUUID'' = JString ''180d''"
    by (simp add: exampleOptions_def getProp_def)
  with opts have differs: "serviceUUID exampleConnected \<noteq> JString ''serviceUUID''"
    by (simp add: serviceUUID_def serviceUUIDOf_def)
  have decoded: "decodeValue (Some [1]) = Inr (OBoolean True)"
    by (simp add: decodeValue_def)
  from option_entries_act_as_aliases [OF opts name differs decoded, of "\<lambda>outs. None"]
    opts differs decoded val
  show ?thesis by (auto simp: hostAccepts_def truthy_def toString_def)
qed

text \<open>
  C10 as stated fails in two ways. With \<open>displayoutputs\<close> set to \<open>false\<close> the entry stays
  in the mapping, but a characteristic named \<open>displayoutputs\<close> is published under its
  own identifier, not under the value of the entry. With the service identifier set to
  the string \<open>displayoutputs\<close> the entry keyed \<open>displayoutputs\<close> is removed.
\<close>

theorem falsy_option_entry_counterexample:
  "getProp exampleOptions ''displayoutputs'' = JBoolean False \<and>
   keyAliases (exampleWithOptions exampleOptions) = Some exampleOptions \<and>
   hostCalls (listener hostAccepts ''displayoutputs'' (Some [1]) (exampleWithOptions exampleOptions)) =
     [[(''displayoutputs'', OBoolean True)]] \<and>
   keyAliases
     (exampleWithOptions
        [(''serviceUUID'', JString ''displayoutputs''), (''displayoutputs'', JBoolean True)]) =
     Some [(''serviceUUID'', JString ''displayoutputs'')]"
  by (simp add: exampleWithOptions_def exampleConnected_def exampleSubscribing_def
      exampleOptions_def keyAliasesEffect_def newKeyAliases_def objectKeys_def
      objectFromEntries_def getProp_def serviceUUIDOf_def listener_def listenerTry_def
      hostAccepts_def decodeValue_def resolveKey_def truthy_def toString_def
      displayoutputs_def displayoutputsOf_def Let_def)

end
